theory Spec2Isabelle
  imports Main "HOL-Library.Sublist"
begin

section \<open>Data model of \<^verbatim>\<open>pip/operations/prepare.py\<close>\<close>

text \<open>
  The objects that \<^verbatim>\<open>prepare_requirement\<close> reads and writes. Their classes live
  outside the file, so each is a record of the attributes the file uses. An attribute
  that may be \<^verbatim>\<open>None\<close> is an option.
\<close>

record Link =
  url :: string
  scheme :: string
  is_wheel :: bool
  link_hash :: "(string \<times> string) option"

record Distribution =
  project_name :: string
  version :: string
  location :: string

record InstallRequirement =
  req_name :: string
  editable :: bool
  link :: "Link option"
  original_link :: "Link option"
  source_dir :: "string option"
  satisfied_by :: "Distribution option"
  conflicts_with :: "Distribution option"
  is_pinned :: bool
  declared_hashes :: "(string \<times> string list) list"

text \<open>
  \<^verbatim>\<open>resolver.require_hashes\<close> has three values in the source (\<^verbatim>\<open>None\<close> until
  \<^verbatim>\<open>resolve()\<close> sets it), and line 180 asserts that it is not \<^verbatim>\<open>None\<close>.
\<close>

record Resolver =
  ignore_installed :: bool
  require_hashes :: "bool option"
  upgrade_strategy :: string
  use_user_site :: bool

record RequirementPreparer =
  src_dir :: string
  build_dir :: string
  download_dir :: "string option"
  wheel_download_dir :: "string option"
  progress_bar :: string

text \<open>
  A hash set: the dictionary from algorithm name to accepted digests of
  \<^verbatim>\<open>pip.utils.hashes.Hashes\<close>, or the \<^verbatim>\<open>MissingHashes\<close> facade.
\<close>

datatype hashes = Hashes "(string \<times> string list) list" | MissingHashes

text \<open>The three subclasses of \<^verbatim>\<open>DistAbstraction\<close>; the requirement each one holds is
  the requirement object of the state (the source shares the object, it does not copy it).\<close>

datatype abstract_dist = IsWheel | IsSDist | Installed

datatype error =
    AssertionError
  | AttributeError
  | TypeError
  | IndexError
  | UnboundLocalError
  | InstallationError string
  | PreviousBuildDirError string
  | VcsHashUnsupported
  | DirectoryUrlHashUnsupported
  | HashUnpinned
  | HashMissing string
  | DistributionNotFound
  | HTTPError string
  | ConnectionError string
  | OtherError string

datatype level = Info | Debug | Critical

text \<open>What a run does that can be observed from outside: the log lines and the calls of
  the collaborators that may change the requirement or the world.\<close>

datatype event =
    Log level string
  | CheckSkipInstalled
  | EnsureHasSourceDir string
  | UpdateEditable bool
  | RunEggInfo
  | AssertSourceMatchesVersion
  | Archive "string option"
  | CheckIfExists
  | PopulateLink bool bool
  | UnpackUrl Link "string option" "string option" bool hashes string
  | FindDistributions "string option"
  | GetDist
  | AddDependencyLinks "string list"

record 'w state =
  req :: InstallRequirement
  preparer :: RequirementPreparer
  world :: 'w
  trace :: "event list"

section \<open>Collaborators\<close>

text \<open>
  Everything the file imports or calls on other objects is a parameter. A method of the
  requirement may change the requirement and the world (file system, network, installed
  packages, package finder) and may raise; a function that only takes values may change
  the world and may raise. What only looks (\<^verbatim>\<open>os.path.exists\<close>, \<^verbatim>\<open>is_dir_url\<close>)
  is a function of the world, and what only computes (\<^verbatim>\<open>req.hashes\<close>, \<^verbatim>\<open>str\<close>,
  the path functions) is a plain function.
\<close>

type_synonym ('w, 'a) req_method =
  "InstallRequirement \<Rightarrow> 'w \<Rightarrow> (error + 'a) \<times> InstallRequirement \<times> 'w"

type_synonym ('w, 'a) world_fun = "'w \<Rightarrow> (error + 'a) \<times> 'w"

record 'w collab =
  check_skip_installed :: "('w, string option) req_method"
  is_upgrade_allowed :: "InstallRequirement \<Rightarrow> bool"
  ensure_has_source_dir :: "string \<Rightarrow> ('w, unit) req_method"
  update_editable :: "bool \<Rightarrow> ('w, unit) req_method"
  run_egg_info :: "('w, unit) req_method"
  assert_source_matches_version :: "('w, unit) req_method"
  archive :: "string option \<Rightarrow> ('w, unit) req_method"
  check_if_exists :: "('w, unit) req_method"
  populate_link :: "bool \<Rightarrow> bool \<Rightarrow> ('w, unit) req_method"
  get_dist :: "('w, Distribution \<times> string list option) req_method"
  add_dependency_links :: "string list \<Rightarrow> ('w, unit) world_fun"
  find_distributions :: "string option \<Rightarrow> ('w, Distribution list) world_fun"
  unpack_url ::
    "Link \<Rightarrow> string option \<Rightarrow> string option \<Rightarrow> bool \<Rightarrow> hashes \<Rightarrow> string \<Rightarrow> ('w, unit) world_fun"
  req_hashes :: "InstallRequirement \<Rightarrow> bool \<Rightarrow> hashes"
  is_vcs_url :: "Link \<Rightarrow> bool"
  is_file_url :: "Link \<Rightarrow> bool"
  is_dir_url :: "'w \<Rightarrow> Link \<Rightarrow> bool"
  path_exists :: "'w \<Rightarrow> string \<Rightarrow> bool"
  expanduser :: "string \<Rightarrow> string"
  normalize_path :: "string \<Rightarrow> string"
  display_path :: "string \<Rightarrow> string"
  url_to_path :: "string \<Rightarrow> string"
  dist_in_usersite :: "Distribution \<Rightarrow> bool"
  vcs_all_schemes :: "string list"
  req_str :: "InstallRequirement \<Rightarrow> string"
  link_str :: "Link \<Rightarrow> string"

section \<open>Control flow: state, exceptions, logging\<close>

type_synonym ('s, 'a) prog = "'s \<Rightarrow> (error + 'a) \<times> 's"

definition succeed :: "'a \<Rightarrow> ('s, 'a) prog" where
  "succeed x = (\<lambda>s. (Inr x, s))"

definition raise :: "error \<Rightarrow> ('s, 'a) prog" where
  "raise e = (\<lambda>s. (Inl e, s))"

definition seq :: "('s, 'a) prog \<Rightarrow> ('a \<Rightarrow> ('s, 'b) prog) \<Rightarrow> ('s, 'b) prog" where
  "seq m f = (\<lambda>s. case m s of (Inl e, s') \<Rightarrow> (Inl e, s') | (Inr x, s') \<Rightarrow> f x s')"

definition next_do :: "('s, 'a) prog \<Rightarrow> ('s, 'b) prog \<Rightarrow> ('s, 'b) prog" where
  "next_do m n = seq m (\<lambda>_. n)"

definition try_except :: "('s, 'a) prog \<Rightarrow> (error \<Rightarrow> ('s, 'a) prog) \<Rightarrow> ('s, 'a) prog" where
  "try_except m h = (\<lambda>s. case m s of (Inl e, s') \<Rightarrow> h e s' | (Inr x, s') \<Rightarrow> (Inr x, s'))"

definition when_do :: "bool \<Rightarrow> ('s, unit) prog \<Rightarrow> ('s, unit) prog" where
  "when_do b m = (if b then m else succeed ())"

definition assert_that :: "bool \<Rightarrow> ('s, unit) prog" where
  "assert_that b = (if b then succeed () else raise AssertionError)"

definition read :: "('s \<Rightarrow> 'a) \<Rightarrow> ('s, 'a) prog" where
  "read f = (\<lambda>s. (Inr (f s), s))"

definition logger :: "level \<Rightarrow> string \<Rightarrow> ('w state, unit) prog" where
  "logger lv msg = (\<lambda>s. (Inr (), s\<lparr>trace := trace s @ [Log lv msg]\<rparr>))"

definition on_req :: "event \<Rightarrow> ('w, 'a) req_method \<Rightarrow> ('w state, 'a) prog" where
  "on_req ev f =
     (\<lambda>s. case f (req s) (world s) of
             (res, rq, w) \<Rightarrow> (res, s\<lparr>req := rq, world := w, trace := trace s @ [ev]\<rparr>))"

definition on_world :: "event \<Rightarrow> ('w, 'a) world_fun \<Rightarrow> ('w state, 'a) prog" where
  "on_world ev f =
     (\<lambda>s. case f (world s) of (res, w) \<Rightarrow> (res, s\<lparr>world := w, trace := trace s @ [ev]\<rparr>))"

definition set_req :: "(InstallRequirement \<Rightarrow> InstallRequirement) \<Rightarrow> ('w state, unit) prog" where
  "set_req f = (\<lambda>s. (Inr (), s\<lparr>req := f (req s)\<rparr>))"

section \<open>Python values\<close>

text \<open>Truth value of a string or \<^verbatim>\<open>None\<close>: the empty string is false too.\<close>

definition truthy :: "string option \<Rightarrow> bool" where
  "truthy x = (case x of None \<Rightarrow> False | Some v \<Rightarrow> v \<noteq> [])"

text \<open>\<^verbatim>\<open>Hashes.__nonzero__\<close>: whether the dictionary has an entry. The facade is built
  with one entry.\<close>

fun hashes_nonzero :: "hashes \<Rightarrow> bool" where
  "hashes_nonzero (Hashes allowed) = (allowed \<noteq> [])"
| "hashes_nonzero MissingHashes = True"

text \<open>\<^verbatim>\<open>os.path.join\<close> of two components, on POSIX.\<close>

definition path_join :: "string \<Rightarrow> string \<Rightarrow> string" where
  "path_join a b =
     (if b \<noteq> [] \<and> hd b = CHR ''/'' then b
      else if a = [] \<or> last a = CHR ''/'' then a @ b
      else a @ ''/'' @ b)"

definition quote :: "string \<Rightarrow> string" where
  "quote x = [CHR 0x27] @ x @ [CHR 0x27]"

section \<open>The distribution abstractions (lines 25 to 105)\<close>

definition make_abstract_dist :: "InstallRequirement \<Rightarrow> abstract_dist" where
  "make_abstract_dist rq =
     (if editable rq then IsSDist
      else if (case link rq of None \<Rightarrow> False | Some l \<Rightarrow> is_wheel l) then IsWheel
      else IsSDist)"

fun prep_for_dist :: "'w collab \<Rightarrow> abstract_dist \<Rightarrow> ('w state, unit) prog" where
  "prep_for_dist c IsWheel = succeed ()"
| "prep_for_dist c IsSDist =
     next_do (on_req RunEggInfo (run_egg_info c))
             (on_req AssertSourceMatchesVersion (assert_source_matches_version c))"
| "prep_for_dist c Installed = succeed ()"

text \<open>
  \<^verbatim>\<open>dist(finder)\<close>. For a wheel, \<^verbatim>\<open>list(find_distributions(source_dir))[0]\<close>: the
  first element, \<^verbatim>\<open>IndexError\<close> on the empty list. For a source tree, \<^verbatim>\<open>get_dist\<close>
  gives the distribution with the lines of its \<^verbatim>\<open>dependency_links.txt\<close> when it
  has that file. For an installed distribution, \<^verbatim>\<open>req.satisfied_by\<close> as it is
  (\<^verbatim>\<open>None\<close> included).
\<close>

fun dist :: "'w collab \<Rightarrow> abstract_dist \<Rightarrow> ('w state, Distribution option) prog" where
  "dist c IsWheel =
     seq (read req) (\<lambda>rq.
     seq (on_world (FindDistributions (source_dir rq)) (find_distributions c (source_dir rq))) (\<lambda>ds.
       case ds of [] \<Rightarrow> raise IndexError | d # _ \<Rightarrow> succeed (Some d)))"
| "dist c IsSDist =
     seq (on_req GetDist (get_dist c)) (\<lambda>(d, links).
     next_do (case links of
                None \<Rightarrow> succeed ()
              | Some ls \<Rightarrow> on_world (AddDependencyLinks ls) (add_dependency_links c ls))
             (succeed (Some d)))"
| "dist c Installed = read (\<lambda>s. satisfied_by (req s))"

section \<open>The preparer (lines 108 to 343)\<close>

definition RequirementPreparer_init ::
  "'w collab \<Rightarrow> string \<Rightarrow> string option \<Rightarrow> string \<Rightarrow> string option \<Rightarrow> string \<Rightarrow> RequirementPreparer"
where
  "RequirementPreparer_init c bd dd sd wdd pb =
     \<lparr>src_dir = sd, build_dir = bd, download_dir = dd,
      wheel_download_dir = (if truthy wdd then map_option (normalize_path c) wdd else wdd),
      progress_bar = pb\<rparr>"

text \<open>The property \<^verbatim>\<open>_download_should_save\<close> (lines 137 to 149); it overwrites
  \<^verbatim>\<open>self.download_dir\<close> with the expanded path.\<close>

definition download_should_save :: "'w collab \<Rightarrow> ('w state, bool) prog" where
  "download_should_save c =
     seq (read (\<lambda>s. download_dir (preparer s))) (\<lambda>dd.
       if truthy dd then
         (\<lambda>s. let d = expanduser c (the dd);
                  s1 = s\<lparr>preparer := (preparer s)\<lparr>download_dir := Some d\<rparr>\<rparr>
              in if path_exists c (world s1) d then succeed True s1
                 else next_do (logger Critical ''Could not find download directory'')
                        (raise (InstallationError
                           (''Could not find or access download directory '' @
                            quote (display_path c d)))) s1)
       else succeed False)"

text \<open>Lines 154 to 178: the first log line, and for a requirement that is not editable
  the check for an installed distribution. \<^verbatim>\<open>skip_reason\<close> is unbound when
  \<^verbatim>\<open>ignore_installed\<close> is set: the outer option.\<close>

definition announce :: "'w collab \<Rightarrow> Resolver \<Rightarrow> ('w state, unit) prog" where
  "announce c r =
     seq (read req) (\<lambda>rq.
       if editable rq then logger Info (''Obtaining '' @ req_str c rq)
       else
         next_do (assert_that (satisfied_by rq = None))
        (seq (if \<not> ignore_installed r
              then seq (on_req CheckSkipInstalled (check_skip_installed c)) (\<lambda>sr. succeed (Some sr))
              else succeed None) (\<lambda>skip_reason.
         seq (read req) (\<lambda>rq.
           case satisfied_by rq of
             Some d \<Rightarrow>
               (case skip_reason of
                  None \<Rightarrow> raise UnboundLocalError
                | Some sr \<Rightarrow>
                    next_do (assert_that (sr \<noteq> None))
                      (logger Info (''Requirement '' @ the sr @ '': '' @ req_str c rq @
                                    '' ('' @ version d @ '')'')))
           | None \<Rightarrow>
               (if (case link rq of None \<Rightarrow> False | Some l \<Rightarrow> scheme l = ''file'')
                then logger Info (''Processing '' @
                                  display_path c (url_to_path c (url (the (link rq)))))
                else logger Info (''Collecting '' @ req_str c rq))))))"

text \<open>Lines 154 to 181: the announcement and the assertion on \<^verbatim>\<open>require_hashes\<close>.\<close>

definition enter :: "'w collab \<Rightarrow> Resolver \<Rightarrow> ('w state, unit) prog" where
  "enter c r = next_do (announce c r) (assert_that (require_hashes r \<noteq> None))"

text \<open>Lines 187 to 199: the editable branch.\<close>

definition prepare_editable :: "'w collab \<Rightarrow> Resolver \<Rightarrow> ('w state, abstract_dist) prog" where
  "prepare_editable c r =
     next_do (when_do (require_hashes r = Some True)
                (seq (read req) (\<lambda>rq. raise (InstallationError
                   (''The editable requirement '' @ req_str c rq @
                    '' cannot be installed when requiring hashes, because there is no single file to hash.'')))))
    (next_do (seq (read (\<lambda>s. src_dir (preparer s))) (\<lambda>sd.
                on_req (EnsureHasSourceDir sd) (ensure_has_source_dir c sd)))
    (next_do (seq (download_should_save c) (\<lambda>save.
                on_req (UpdateEditable (\<not> save)) (update_editable c (\<not> save))))
    (seq (read (\<lambda>s. make_abstract_dist (req s))) (\<lambda>ad.
     next_do (prep_for_dist c ad)
    (next_do (seq (download_should_save c) (\<lambda>save.
                when_do save
                  (seq (read (\<lambda>s. download_dir (preparer s))) (\<lambda>dd.
                     on_req (Archive dd) (archive c dd)))))
    (next_do (on_req CheckIfExists (check_if_exists c))
             (succeed ad)))))))"

text \<open>Lines 200 to 207: the requirement is satisfied by an installed distribution.\<close>

definition prepare_installed :: "'w collab \<Rightarrow> Resolver \<Rightarrow> ('w state, abstract_dist) prog" where
  "prepare_installed c r =
     next_do (when_do (require_hashes r = Some True)
                (logger Debug
                   (''Since it is already installed, we are trusting this '' @
                    ''package without checking its hash. To ensure a '' @
                    ''completely repeatable environment, install into an '' @
                    ''empty virtualenv.'')))
             (succeed Installed)"

subsection \<open>The fresh acquisition, step by step (lines 208 to 342)\<close>

text \<open>Lines 213 to 229: the build directory and the guard against a previous build.
  \<^verbatim>\<open>os.path.join\<close> raises on a \<^verbatim>\<open>source_dir\<close> that is \<^verbatim>\<open>None\<close>.\<close>

definition ensure_build_dir :: "'w collab \<Rightarrow> ('w state, unit) prog" where
  "ensure_build_dir c =
     next_do (seq (read (\<lambda>s. build_dir (preparer s))) (\<lambda>bd.
                on_req (EnsureHasSourceDir bd) (ensure_has_source_dir c bd)))
             (seq (read (\<lambda>s. s)) (\<lambda>s.
                case source_dir (req s) of
                  None \<Rightarrow> raise TypeError
                | Some d \<Rightarrow>
                    when_do (path_exists c (world s) (path_join d ''setup.py''))
                      (raise (PreviousBuildDirError
                         (''pip can'' @ [CHR 0x27] @ ''t proceed with requirements '' @
                          quote (req_str c (req s)) @
                          '' due to a pre-existing build directory ('' @ d @
                          ''). This is likely due to a previous installation that failed'' @
                          ''. pip is being responsible and not assuming it '' @
                          ''can delete this. Please delete it and try again.'')))))"

text \<open>Lines 230 to 243: \<^verbatim>\<open>populate_link\<close> and the assertion that the link is there.\<close>

definition obtain_link :: "'w collab \<Rightarrow> Resolver \<Rightarrow> ('w state, Link) prog" where
  "obtain_link c r =
     next_do (seq (read req) (\<lambda>rq.
                on_req (PopulateLink (is_upgrade_allowed c rq) (require_hashes r = Some True))
                  (populate_link c (is_upgrade_allowed c rq) (require_hashes r = Some True))))
             (seq (read req) (\<lambda>rq.
                case link rq of None \<Rightarrow> raise AssertionError | Some l \<Rightarrow> succeed l))"

text \<open>Lines 249 to 268: what cannot be hashed, and what is not pinned.\<close>

definition hash_feasibility :: "'w collab \<Rightarrow> Resolver \<Rightarrow> Link \<Rightarrow> ('w state, unit) prog" where
  "hash_feasibility c r l =
     when_do (require_hashes r = Some True)
       (seq (read (\<lambda>s. s)) (\<lambda>s.
          next_do (if is_vcs_url c l then raise VcsHashUnsupported
                   else if is_file_url c l \<and> is_dir_url c (world s) l
                        then raise DirectoryUrlHashUnsupported
                   else succeed ())
                  (when_do (original_link (req s) = None \<and> \<not> is_pinned (req s))
                     (raise HashUnpinned))))"

text \<open>Lines 269 to 276: the hashes of the requirement, or the facade.\<close>

definition compute_hashes :: "'w collab \<Rightarrow> Resolver \<Rightarrow> ('w state, hashes) prog" where
  "compute_hashes c r =
     seq (read req) (\<lambda>rq.
       let hs = req_hashes c rq (\<not> (require_hashes r = Some True))
       in if require_hashes r = Some True \<and> \<not> hashes_nonzero hs then succeed MissingHashes
          else succeed hs)"

text \<open>Lines 279 to 295: where the archive goes and whether the unpacked tree is
  deleted afterwards.\<close>

definition destination :: "RequirementPreparer \<Rightarrow> Link \<Rightarrow> string option \<times> bool" where
  "destination p l =
     (let download_dir0 = download_dir p;
          autodelete0 = True;
          download_dir1 = (if is_wheel l \<and> truthy (wheel_download_dir p)
                           then wheel_download_dir p else download_dir0);
          autodelete1 = (if is_wheel l then (if truthy download_dir1 then True else False)
                         else autodelete0)
      in (download_dir1, autodelete1))"

text \<open>Lines 278 to 312: \<^verbatim>\<open>unpack_url\<close> inside the \<^verbatim>\<open>try\<close>; the handler catches
  \<^verbatim>\<open>requests.HTTPError\<close> and nothing else. The session is part of the world.\<close>

definition unpack_step :: "'w collab \<Rightarrow> Resolver \<Rightarrow> hashes \<Rightarrow> ('w state, unit) prog" where
  "unpack_step c r hs =
     try_except
       (seq (read (\<lambda>s. s)) (\<lambda>s.
          case link (req s) of
            None \<Rightarrow> raise AttributeError
          | Some l \<Rightarrow>
              (case destination (preparer s) l of
                 (dd, autodelete_unpacked) \<Rightarrow>
                   on_world
                     (UnpackUrl l (source_dir (req s)) dd autodelete_unpacked hs
                        (progress_bar (preparer s)))
                     (unpack_url c l (source_dir (req s)) dd autodelete_unpacked hs
                        (progress_bar (preparer s))))))
       (\<lambda>e. case e of
          HTTPError exc \<Rightarrow>
            seq (read req) (\<lambda>rq.
              next_do (logger Critical
                         (''Could not install requirement '' @ req_str c rq @
                          '' because of error '' @ exc))
                      (raise (InstallationError
                         (''Could not install requirement '' @ req_str c rq @
                          '' because of HTTP error '' @ exc @ '' for URL '' @
                          (case link rq of None \<Rightarrow> ''None'' | Some l \<Rightarrow> link_str c l)))))
        | _ \<Rightarrow> raise e)"

text \<open>Lines 313 to 323: the abstraction, its preparation, the archive of a checkout,
  and the second look at what is installed.\<close>

definition finish_fresh :: "'w collab \<Rightarrow> Resolver \<Rightarrow> ('w state, abstract_dist) prog" where
  "finish_fresh c r =
     seq (read (\<lambda>s. make_abstract_dist (req s))) (\<lambda>ad.
     next_do (prep_for_dist c ad)
    (next_do (seq (download_should_save c) (\<lambda>save.
                when_do save
                  (seq (read (\<lambda>s. s)) (\<lambda>s.
                     case link (req s) of
                       None \<Rightarrow> raise AttributeError
                     | Some l \<Rightarrow>
                         when_do (scheme l \<in> set (vcs_all_schemes c))
                           (on_req (Archive (download_dir (preparer s)))
                              (archive c (download_dir (preparer s))))))))
    (next_do (when_do (\<not> ignore_installed r) (on_req CheckIfExists (check_if_exists c)))
             (succeed ad))))"

text \<open>Lines 324 to 342: an installed distribution was found after unpacking.\<close>

definition should_modify :: "Resolver \<Rightarrow> bool" where
  "should_modify r = (upgrade_strategy r \<noteq> ''to-satisfy-only'' \<or> ignore_installed r)"

definition resolve_conflict :: "'w collab \<Rightarrow> Resolver \<Rightarrow> ('w state, unit) prog" where
  "resolve_conflict c r =
     seq (read req) (\<lambda>rq.
       case satisfied_by rq of
         None \<Rightarrow> succeed ()
       | Some d \<Rightarrow>
           if should_modify r then
             next_do (when_do (\<not> (use_user_site r \<and> \<not> dist_in_usersite c d))
                        (set_req (\<lambda>q. q\<lparr>conflicts_with := satisfied_by q\<rparr>)))
                     (set_req (\<lambda>q. q\<lparr>satisfied_by := None\<rparr>))
           else
             logger Info (''Requirement already satisfied (use '' @
                          ''--upgrade to upgrade): '' @ req_str c rq))"

subsection \<open>The steps in sequence\<close>

text \<open>Each of these runs the fresh acquisition from its first line up to the line
  named; the next one continues it.\<close>

definition upto_link :: "'w collab \<Rightarrow> Resolver \<Rightarrow> ('w state, Link) prog" where
  "upto_link c r = next_do (ensure_build_dir c) (obtain_link c r)"

definition upto_hashes :: "'w collab \<Rightarrow> Resolver \<Rightarrow> ('w state, hashes) prog" where
  "upto_hashes c r =
     seq (upto_link c r) (\<lambda>l. next_do (hash_feasibility c r l) (compute_hashes c r))"

definition upto_unpack :: "'w collab \<Rightarrow> Resolver \<Rightarrow> ('w state, unit) prog" where
  "upto_unpack c r = seq (upto_hashes c r) (unpack_step c r)"

definition upto_recheck :: "'w collab \<Rightarrow> Resolver \<Rightarrow> ('w state, abstract_dist) prog" where
  "upto_recheck c r = next_do (upto_unpack c r) (finish_fresh c r)"

definition prepare_fresh :: "'w collab \<Rightarrow> Resolver \<Rightarrow> ('w state, abstract_dist) prog" where
  "prepare_fresh c r =
     seq (upto_recheck c r) (\<lambda>ad. next_do (resolve_conflict c r) (succeed ad))"

definition prepare_requirement :: "'w collab \<Rightarrow> Resolver \<Rightarrow> ('w state, abstract_dist) prog" where
  "prepare_requirement c r =
     next_do (enter c r)
       (seq (read req) (\<lambda>rq.
          if editable rq then prepare_editable c r
          else if satisfied_by rq \<noteq> None then prepare_installed c r
          else prepare_fresh c r))"


subsection \<open>The rest of the fresh acquisition, from a given line on\<close>

text \<open>Lines 313 to 342, lines 278 to 342 and lines 269 to 342.\<close>

definition from_finish :: "'w collab \<Rightarrow> Resolver \<Rightarrow> ('w state, abstract_dist) prog" where
  "from_finish c r =
     seq (finish_fresh c r) (\<lambda>ad. next_do (resolve_conflict c r) (succeed ad))"

definition from_unpack :: "'w collab \<Rightarrow> Resolver \<Rightarrow> hashes \<Rightarrow> ('w state, abstract_dist) prog" where
  "from_unpack c r hs = next_do (unpack_step c r hs) (from_finish c r)"

definition from_hashes :: "'w collab \<Rightarrow> Resolver \<Rightarrow> ('w state, abstract_dist) prog" where
  "from_hashes c r = seq (compute_hashes c r) (from_unpack c r)"

section \<open>Test doubles\<close>

text \<open>
  Concrete collaborators on a small world (the paths that exist and the installed
  distributions), for running the preparer on concrete requirements. A requirement
  given by URL has no name until its metadata is generated.
\<close>

record demo_world =
  files :: "string list"
  installed :: "Distribution list"

definition index_link :: "string \<Rightarrow> Link" where
  "index_link n =
     \<lparr>url = ''https://pypi.org/packages/'' @ n @ ''-2.0.tar.gz'', scheme = ''https'',
      is_wheel = False, link_hash = Some (''sha256'', ''c0ffee'')\<rparr>"

definition demo_collab :: "demo_world collab" where
  "demo_collab =
     \<lparr>check_skip_installed = (\<lambda>rq w.
        if req_name rq = [] then (Inr None, rq, w)
        else (case find (\<lambda>d. project_name d = req_name rq) (installed w) of
                None \<Rightarrow> (Inr None, rq, w)
              | Some d \<Rightarrow> (Inr (Some ''already satisfied''), rq\<lparr>satisfied_by := Some d\<rparr>, w))),
      is_upgrade_allowed = (\<lambda>rq. False),
      ensure_has_source_dir = (\<lambda>parent rq w.
        (Inr (),
         rq\<lparr>source_dir := Some (path_join parent
                (if req_name rq = [] then ''req-build'' else req_name rq))\<rparr>, w)),
      update_editable = (\<lambda>obtain rq w. (Inr (), rq, w)),
      run_egg_info = (\<lambda>rq w.
        (Inr (), rq\<lparr>req_name := (if req_name rq = [] then ''demo'' else req_name rq)\<rparr>, w)),
      assert_source_matches_version = (\<lambda>rq w. (Inr (), rq, w)),
      archive = (\<lambda>dd rq w. (Inr (), rq, w)),
      check_if_exists = (\<lambda>rq w.
        (Inr (), rq\<lparr>satisfied_by := find (\<lambda>d. project_name d = req_name rq) (installed w)\<rparr>, w)),
      populate_link = (\<lambda>upgrade rh rq w.
        case link rq of
          Some l \<Rightarrow> (Inr (), rq, w)
        | None \<Rightarrow>
            if req_name rq = [] then (Inl DistributionNotFound, rq, w)
            else (Inr (), rq\<lparr>link := Some (index_link (req_name rq))\<rparr>, w)),
      get_dist = (\<lambda>rq w.
        (Inr (\<lparr>project_name = req_name rq, version = ''2.0'',
               location = (case source_dir rq of None \<Rightarrow> [] | Some d \<Rightarrow> d)\<rparr>, None), rq, w)),
      add_dependency_links = (\<lambda>ls w. (Inr (), w)),
      find_distributions = (\<lambda>sd w.
        (Inr (filter (\<lambda>d. Some (location d) = sd) (installed w)), w)),
      unpack_url = (\<lambda>l sd dd autodelete hs pb w.
        case hs of
          MissingHashes \<Rightarrow> (Inl (HashMissing ''sha256:c0ffee''), w)
        | Hashes allowed \<Rightarrow>
            (Inr (), w\<lparr>files := (case sd of None \<Rightarrow> [] | Some d \<Rightarrow> [d]) @ files w\<rparr>)),
      req_hashes = (\<lambda>rq trust_internet.
        Hashes (declared_hashes rq @
          (if trust_internet
           then (case link rq of
                   None \<Rightarrow> []
                 | Some l \<Rightarrow> (case link_hash l of None \<Rightarrow> [] | Some (n, h) \<Rightarrow> [(n, [h])]))
           else []))),
      is_vcs_url = (\<lambda>l. scheme l \<in> set [''git'', ''git+https'', ''hg'', ''svn'', ''bzr'']),
      is_file_url = (\<lambda>l. scheme l = ''file''),
      is_dir_url = (\<lambda>w l. url l \<noteq> [] \<and> last (url l) = CHR ''/''),
      path_exists = (\<lambda>w p. p \<in> set (files w)),
      expanduser = (\<lambda>p. p),
      normalize_path = (\<lambda>p. p),
      display_path = (\<lambda>p. p),
      url_to_path = (\<lambda>u. drop 7 u),
      dist_in_usersite = (\<lambda>d. location d = ''/home/user/.local/site-packages''),
      vcs_all_schemes = [''git'', ''git+https'', ''hg'', ''svn'', ''bzr''],
      req_str = (\<lambda>rq.
        if req_name rq = [] then (case link rq of None \<Rightarrow> ''None'' | Some l \<Rightarrow> url l)
        else req_name rq),
      link_str = url\<rparr>"

definition demo_preparer :: RequirementPreparer where
  "demo_preparer =
     \<lparr>src_dir = ''/home/user/src'', build_dir = ''/tmp/pip-build'', download_dir = None,
      wheel_download_dir = None, progress_bar = ''on''\<rparr>"

definition strict_resolver :: Resolver where
  "strict_resolver =
     \<lparr>ignore_installed = False, require_hashes = Some True,
      upgrade_strategy = ''to-satisfy-only'', use_user_site = False\<rparr>"

definition eager_resolver :: Resolver where
  "eager_resolver =
     \<lparr>ignore_installed = False, require_hashes = Some False,
      upgrade_strategy = ''eager'', use_user_site = False\<rparr>"

definition empty_world :: demo_world where
  "empty_world = \<lparr>files = [], installed = []\<rparr>"

definition blank_req :: InstallRequirement where
  "blank_req =
     \<lparr>req_name = [], editable = False, link = None, original_link = None, source_dir = None,
      satisfied_by = None, conflicts_with = None, is_pinned = False, declared_hashes = []\<rparr>"

definition start :: "InstallRequirement \<Rightarrow> demo_world \<Rightarrow> demo_world state" where
  "start rq w = \<lparr>req = rq, preparer = demo_preparer, world = w, trace = []\<rparr>"

definition git_link :: Link where
  "git_link =
     \<lparr>url = ''git+https://example.org/demo.git'', scheme = ''git+https'', is_wheel = False,
      link_hash = None\<rparr>"

definition vcs_req :: InstallRequirement where
  "vcs_req = blank_req\<lparr>req_name := ''demo'', link := Some git_link, original_link := Some git_link\<rparr>"

definition editable_req :: InstallRequirement where
  "editable_req = vcs_req\<lparr>editable := True\<rparr>"

definition pinned_req :: InstallRequirement where
  "pinned_req = blank_req\<lparr>req_name := ''demo'', is_pinned := True\<rparr>"

definition hashed_req :: InstallRequirement where
  "hashed_req = pinned_req\<lparr>declared_hashes := [(''sha256'', [''abc123''])]\<rparr>"

definition archive_link :: Link where
  "archive_link =
     \<lparr>url = ''https://example.org/demo-2.0.tar.gz'', scheme = ''https'', is_wheel = False,
      link_hash = None\<rparr>"

definition wheel_link :: Link where
  "wheel_link =
     \<lparr>url = ''https://example.org/demo-2.0-py2.py3-none-any.whl'', scheme = ''https'',
      is_wheel = True, link_hash = None\<rparr>"

definition url_req :: InstallRequirement where
  "url_req = blank_req\<lparr>link := Some archive_link, original_link := Some archive_link\<rparr>"

definition wheel_req :: InstallRequirement where
  "wheel_req =
     blank_req\<lparr>req_name := ''demo'', link := Some wheel_link, original_link := Some wheel_link,
               source_dir := Some ''/tmp/pip-build/demo''\<rparr>"

definition demo_1_0 :: Distribution where
  "demo_1_0 =
     \<lparr>project_name = ''demo'', version = ''1.0'', location = ''/usr/lib/python/site-packages''\<rparr>"

definition demo_2_0 :: Distribution where
  "demo_2_0 = \<lparr>project_name = ''demo'', version = ''2.0'', location = ''/tmp/pip-build/demo''\<rparr>"

definition installed_world :: demo_world where
  "installed_world = \<lparr>files = [], installed = [demo_1_0]\<rparr>"

definition unpacked_world :: demo_world where
  "unpacked_world = \<lparr>files = [''/tmp/pip-build/demo''], installed = [demo_2_0]\<rparr>"

definition stale_world :: demo_world where
  "stale_world = \<lparr>files = [''/tmp/pip-build/demo/setup.py''], installed = []\<rparr>"

definition user_site_resolver :: Resolver where
  "user_site_resolver = eager_resolver\<lparr>use_user_site := True\<rparr>"

definition offline_collab :: "demo_world collab" where
  "offline_collab =
     demo_collab\<lparr>unpack_url := (\<lambda>l sd dd autodelete hs pb w.
       (Inl (ConnectionError ''Connection refused''), w))\<rparr>"

definition not_found_collab :: "demo_world collab" where
  "not_found_collab =
     demo_collab\<lparr>unpack_url := (\<lambda>l sd dd autodelete hs pb w.
       (Inl (HTTPError ''404 Client Error: Not Found''), w))\<rparr>"

definition keep_preparer :: RequirementPreparer where
  "keep_preparer = demo_preparer\<lparr>download_dir := Some ''/downloads''\<rparr>"

definition unpinned_req :: InstallRequirement where
  "unpinned_req = blank_req\<lparr>req_name := ''demo''\<rparr>"

definition dir_link :: Link where
  "dir_link =
     \<lparr>url = ''file:///home/user/proj/'', scheme = ''file'', is_wheel = False, link_hash = None\<rparr>"

definition dir_req :: InstallRequirement where
  "dir_req = blank_req\<lparr>req_name := ''demo'', link := Some dir_link, original_link := Some dir_link\<rparr>"

definition lenient_resolver :: Resolver where
  "lenient_resolver = eager_resolver\<lparr>upgrade_strategy := ''to-satisfy-only''\<rparr>"

section \<open>Running the steps\<close>

lemmas run_defs = seq_def next_do_def try_except_def when_do_def assert_that_def read_def
  logger_def on_req_def on_world_def set_req_def succeed_def raise_def

lemmas step_defs = enter_def announce_def upto_link_def ensure_build_dir_def obtain_link_def
  hash_feasibility_def compute_hashes_def unpack_step_def finish_fresh_def resolve_conflict_def
  download_should_save_def destination_def make_abstract_dist_def should_modify_def
  upto_hashes_def upto_unpack_def upto_recheck_def

lemmas demo_defs = demo_collab_def demo_preparer_def strict_resolver_def eager_resolver_def
  empty_world_def blank_req_def start_def git_link_def vcs_req_def index_link_def
  truthy_def path_join_def quote_def editable_req_def pinned_req_def hashed_req_def
  archive_link_def wheel_link_def url_req_def wheel_req_def demo_1_0_def demo_2_0_def
  installed_world_def unpacked_world_def stale_world_def user_site_resolver_def
  offline_collab_def not_found_collab_def keep_preparer_def unpinned_req_def dir_link_def
  dir_req_def lenient_resolver_def

text \<open>The fresh acquisition runs its steps in the order of the source.\<close>

lemma seq_assoc: "seq (seq m f) g = seq m (\<lambda>x. seq (f x) g)"
  by (auto simp: seq_def fun_eq_iff split: prod.splits sum.splits)

lemma prepare_fresh_steps:
  "prepare_fresh c r =
     next_do (ensure_build_dir c)
    (seq (obtain_link c r) (\<lambda>l.
     next_do (hash_feasibility c r l)
    (seq (compute_hashes c r) (\<lambda>hs.
     next_do (unpack_step c r hs)
    (seq (finish_fresh c r) (\<lambda>ad.
     next_do (resolve_conflict c r) (succeed ad)))))))"
  by (simp add: prepare_fresh_def upto_recheck_def upto_unpack_def upto_hashes_def upto_link_def
      next_do_def seq_assoc)

text \<open>A requirement that is not editable and not satisfied goes down the fresh
  acquisition.\<close>

lemma prepare_requirement_fresh:
  assumes "enter c r s = (Inr (), s0)" "\<not> editable (req s0)" "satisfied_by (req s0) = None"
  shows "prepare_requirement c r s = prepare_fresh c r s0"
  using assms by (simp add: prepare_requirement_def next_do_def seq_def read_def)

text \<open>The fresh acquisition is its first steps followed by the rest.\<close>

lemma prepare_fresh_from_link:
  assumes "upto_link c r s0 = (Inr l, s1)"
  shows "prepare_fresh c r s0 = next_do (hash_feasibility c r l) (from_hashes c r) s1"
  using assms
  by (simp add: prepare_fresh_def upto_recheck_def upto_unpack_def upto_hashes_def
      from_hashes_def from_unpack_def from_finish_def next_do_def seq_def
      split: prod.splits sum.splits)

lemma prepare_fresh_from_hashes:
  assumes "upto_hashes c r s0 = (Inr hs, s1)"
  shows "prepare_fresh c r s0 = from_unpack c r hs s1"
  using assms
  by (simp add: prepare_fresh_def upto_recheck_def upto_unpack_def
      from_unpack_def from_finish_def next_do_def seq_def
      split: prod.splits sum.splits)

lemma prepare_fresh_from_recheck:
  assumes "upto_recheck c r s0 = (Inr ad, s1)"
  shows "prepare_fresh c r s0 = next_do (resolve_conflict c r) (succeed ad) s1"
  using assms by (simp add: prepare_fresh_def seq_def)

lemma upto_recheck_from_unpack:
  assumes "upto_unpack c r s0 = (Inr (), su)"
  shows "upto_recheck c r s0 = finish_fresh c r su"
  using assms by (simp add: upto_recheck_def next_do_def seq_def)

lemma upto_hashes_from_link:
  assumes "upto_link c r s0 = (Inr l, s1)"
  shows "upto_hashes c r s0 = next_do (hash_feasibility c r l) (compute_hashes c r) s1"
  using assms by (simp add: upto_hashes_def seq_def)

text \<open>The link that \<^verbatim>\<open>populate_link\<close> left is the link of the requirement.\<close>

lemma upto_link_link:
  assumes "upto_link c r s0 = (Inr l, s1)"
  shows "link (req s1) = Some l"
  using assms
  by (auto simp: upto_link_def obtain_link_def next_do_def seq_def read_def raise_def succeed_def
      split: prod.splits sum.splits option.splits)

text \<open>The abstraction returned is the one built from the requirement as it is after
  unpacking, and the factory never builds the installed variant.\<close>

lemma finish_fresh_result:
  assumes "finish_fresh c r s = (Inr ad, s')"
  shows "ad = make_abstract_dist (req s)"
  using assms
  by (auto simp: finish_fresh_def next_do_def seq_def read_def succeed_def
      split: prod.splits sum.splits)

lemma make_abstract_dist_not_installed: "make_abstract_dist rq \<noteq> Installed"
  by (simp add: make_abstract_dist_def)

text \<open>The hash set that reaches the unpack step.\<close>

lemma upto_hashes_result:
  assumes "upto_hashes c r s0 = (Inr hs, s1)"
  shows "hs = (let h = req_hashes c (req s1) (\<not> (require_hashes r = Some True))
               in if require_hashes r = Some True \<and> \<not> hashes_nonzero h then MissingHashes else h)"
  using assms
  by (auto simp: upto_hashes_def hash_feasibility_def compute_hashes_def run_defs Let_def
      split: prod.splits sum.splits if_splits)

text \<open>The unpack step when \<^verbatim>\<open>unpack_url\<close> raises.\<close>

lemma unpack_step_raises:
  assumes "link (req s) = Some l"
      and "unpack_url c l (source_dir (req s)) (fst (destination (preparer s) l))
             (snd (destination (preparer s) l)) hs (progress_bar (preparer s)) (world s) =
           (Inl e, w)"
  shows "unpack_step c r hs s =
           (let s2 = s\<lparr>world := w,
                       trace := trace s @
                         [UnpackUrl l (source_dir (req s)) (fst (destination (preparer s) l))
                            (snd (destination (preparer s) l)) hs (progress_bar (preparer s))]\<rparr>
            in case e of
                 HTTPError exc \<Rightarrow>
                   (Inl (InstallationError
                          (''Could not install requirement '' @ req_str c (req s) @
                           '' because of HTTP error '' @ exc @ '' for URL '' @ link_str c l)),
                    s2\<lparr>trace := trace s2 @
                         [Log Critical (''Could not install requirement '' @ req_str c (req s) @
                                        '' because of error '' @ exc)]\<rparr>)
               | _ \<Rightarrow> (Inl e, s2))"
  using assms
  by (cases e) (simp_all add: unpack_step_def run_defs case_prod_beta Let_def)

section \<open>The hash policy\<close>

text \<open>
  C1. On the fresh acquisition, once the link is populated (\<open>upto_link\<close> returned it),
  with \<^verbatim>\<open>require_hashes\<close> true the first of these decides: a version-control link
  fails with \<open>VcsHashUnsupported\<close>; otherwise a file link to a directory fails with
  \<open>DirectoryUrlHashUnsupported\<close>; otherwise a requirement with no \<^verbatim>\<open>original_link\<close>
  that is not pinned fails with \<open>HashUnpinned\<close>; otherwise the run goes on with line 269.
  Each failure leaves the state as \<^verbatim>\<open>populate_link\<close> left it. With
  \<^verbatim>\<open>require_hashes\<close> false the checks do nothing, and the run goes on with line 269
  whatever the link is.
\<close>

theorem hash_feasibility_order:
  assumes "enter c r s = (Inr (), s0)" "\<not> editable (req s0)" "satisfied_by (req s0) = None"
      and "upto_link c r s0 = (Inr l, s1)"
  shows "(require_hashes r = Some True \<longrightarrow>
            prepare_requirement c r s =
              (if is_vcs_url c l then (Inl VcsHashUnsupported, s1)
               else if is_file_url c l \<and> is_dir_url c (world s1) l
                    then (Inl DirectoryUrlHashUnsupported, s1)
               else if original_link (req s1) = None \<and> \<not> is_pinned (req s1)
                    then (Inl HashUnpinned, s1)
               else from_hashes c r s1))
       \<and> (require_hashes r \<noteq> Some True \<longrightarrow>
            hash_feasibility c r l s1 = (Inr (), s1) \<and>
            prepare_requirement c r s = from_hashes c r s1)"
  using prepare_requirement_fresh [OF assms(1-3)] prepare_fresh_from_link [OF assms(4)]
  by (simp add: hash_feasibility_def when_do_def next_do_def seq_def read_def raise_def succeed_def)

theorem hash_feasibility_order_witness:
  "fst (prepare_requirement demo_collab strict_resolver (start vcs_req empty_world)) =
     Inl VcsHashUnsupported
   \<and> fst (prepare_requirement demo_collab strict_resolver (start dir_req empty_world)) =
       Inl DirectoryUrlHashUnsupported
   \<and> fst (prepare_requirement demo_collab strict_resolver (start unpinned_req empty_world)) =
       Inl HashUnpinned
   \<and> prepare_requirement demo_collab eager_resolver (start vcs_req empty_world) =
       from_hashes demo_collab eager_resolver
         ((start vcs_req empty_world)
            \<lparr>req := vcs_req\<lparr>source_dir := Some ''/tmp/pip-build/demo''\<rparr>,
             trace := [CheckSkipInstalled, Log Info ''Collecting demo'',
                       EnsureHasSourceDir ''/tmp/pip-build'', PopulateLink False False]\<rparr>)"
proof -
  have r: "require_hashes strict_resolver = Some True" "require_hashes eager_resolver \<noteq> Some True"
    by (simp_all add: demo_defs)
  have vcs: "fst (prepare_requirement demo_collab strict_resolver (start vcs_req empty_world)) =
               Inl VcsHashUnsupported"
  proof -
    let ?s = "start vcs_req empty_world"
    let ?sa = "?s\<lparr>trace := [CheckSkipInstalled, Log Info ''Collecting demo'']\<rparr>"
    let ?sb = "?s\<lparr>req := vcs_req\<lparr>source_dir := Some ''/tmp/pip-build/demo''\<rparr>,
                 trace := [CheckSkipInstalled, Log Info ''Collecting demo'',
                           EnsureHasSourceDir ''/tmp/pip-build'', PopulateLink False True]\<rparr>"
    have e: "enter demo_collab strict_resolver ?s = (Inr (), ?sa)"
      by (simp add: step_defs run_defs demo_defs)
    have n: "\<not> editable (req ?sa)" "satisfied_by (req ?sa) = None"
      by (simp_all add: demo_defs)
    have l: "upto_link demo_collab strict_resolver ?sa = (Inr git_link, ?sb)"
      by (simp add: step_defs run_defs demo_defs)
    have "is_vcs_url demo_collab git_link"
      by (simp add: demo_defs)
    with hash_feasibility_order [OF e n l] r show ?thesis by simp
  qed
  have dir: "fst (prepare_requirement demo_collab strict_resolver (start dir_req empty_world)) =
               Inl DirectoryUrlHashUnsupported"
  proof -
    let ?s = "start dir_req empty_world"
    let ?sa = "?s\<lparr>trace := [CheckSkipInstalled, Log Info ''Processing /home/user/proj/'']\<rparr>"
    let ?sb = "?s\<lparr>req := dir_req\<lparr>source_dir := Some ''/tmp/pip-build/demo''\<rparr>,
                 trace := [CheckSkipInstalled, Log Info ''Processing /home/user/proj/'',
                           EnsureHasSourceDir ''/tmp/pip-build'', PopulateLink False True]\<rparr>"
    have e: "enter demo_collab strict_resolver ?s = (Inr (), ?sa)"
      by (simp add: step_defs run_defs demo_defs)
    have n: "\<not> editable (req ?sa)" "satisfied_by (req ?sa) = None"
      by (simp_all add: demo_defs)
    have l: "upto_link demo_collab strict_resolver ?sa = (Inr dir_link, ?sb)"
      by (simp add: step_defs run_defs demo_defs)
    have "\<not> is_vcs_url demo_collab dir_link" "is_file_url demo_collab dir_link"
      "is_dir_url demo_collab (world ?sb) dir_link"
      by (simp_all add: demo_defs)
    with hash_feasibility_order [OF e n l] r show ?thesis by simp
  qed
  have unpinned: "fst (prepare_requirement demo_collab strict_resolver
                         (start unpinned_req empty_world)) = Inl HashUnpinned"
  proof -
    let ?s = "start unpinned_req empty_world"
    let ?sa = "?s\<lparr>trace := [CheckSkipInstalled, Log Info ''Collecting demo'']\<rparr>"
    let ?sb = "?s\<lparr>req := unpinned_req\<lparr>link := Some (index_link ''demo''),
                                       source_dir := Some ''/tmp/pip-build/demo''\<rparr>,
                 trace := [CheckSkipInstalled, Log Info ''Collecting demo'',
                           EnsureHasSourceDir ''/tmp/pip-build'', PopulateLink False True]\<rparr>"
    have e: "enter demo_collab strict_resolver ?s = (Inr (), ?sa)"
      by (simp add: step_defs run_defs demo_defs)
    have n: "\<not> editable (req ?sa)" "satisfied_by (req ?sa) = None"
      by (simp_all add: demo_defs)
    have l: "upto_link demo_collab strict_resolver ?sa = (Inr (index_link ''demo''), ?sb)"
      by (simp add: step_defs run_defs demo_defs)
    have "\<not> is_vcs_url demo_collab (index_link ''demo'')"
      "\<not> is_file_url demo_collab (index_link ''demo'')"
      "original_link (req ?sb) = None" "\<not> is_pinned (req ?sb)"
      by (simp_all add: demo_defs)
    with hash_feasibility_order [OF e n l] r show ?thesis by simp
  qed
  have skipped: "prepare_requirement demo_collab eager_resolver (start vcs_req empty_world) =
       from_hashes demo_collab eager_resolver
         ((start vcs_req empty_world)
            \<lparr>req := vcs_req\<lparr>source_dir := Some ''/tmp/pip-build/demo''\<rparr>,
             trace := [CheckSkipInstalled, Log Info ''Collecting demo'',
                       EnsureHasSourceDir ''/tmp/pip-build'', PopulateLink False False]\<rparr>)"
  proof -
    let ?s = "start vcs_req empty_world"
    let ?sa = "?s\<lparr>trace := [CheckSkipInstalled, Log Info ''Collecting demo'']\<rparr>"
    let ?sb = "?s\<lparr>req := vcs_req\<lparr>source_dir := Some ''/tmp/pip-build/demo''\<rparr>,
                 trace := [CheckSkipInstalled, Log Info ''Collecting demo'',
                           EnsureHasSourceDir ''/tmp/pip-build'', PopulateLink False False]\<rparr>"
    have e: "enter demo_collab eager_resolver ?s = (Inr (), ?sa)"
      by (simp add: step_defs run_defs demo_defs)
    have n: "\<not> editable (req ?sa)" "satisfied_by (req ?sa) = None"
      by (simp_all add: demo_defs)
    have l: "upto_link demo_collab eager_resolver ?sa = (Inr git_link, ?sb)"
      by (simp add: step_defs run_defs demo_defs)
    from hash_feasibility_order [OF e n l] r show ?thesis by simp
  qed
  from vcs dir unpinned skipped show ?thesis by simp
qed

text \<open>
  C2. With \<^verbatim>\<open>require_hashes\<close> true, the three checks passed and no hash known for
  the requirement, the steps up to line 276 do not fail: they yield \<open>MissingHashes\<close>
  and leave the state as it was. \<^verbatim>\<open>unpack_url\<close> is then called with the facade, and
  when that call raises \<open>HashMissing\<close> with the digest it computed, this very error
  is what \<^verbatim>\<open>prepare_requirement\<close> raises; the call of \<^verbatim>\<open>unpack_url\<close> is the last
  event of the run.
\<close>

theorem missing_hashes_deferred:
  assumes "enter c r s = (Inr (), s0)" "\<not> editable (req s0)" "satisfied_by (req s0) = None"
      and "upto_link c r s0 = (Inr l, s1)"
      and "require_hashes r = Some True"
      and "\<not> is_vcs_url c l" "\<not> (is_file_url c l \<and> is_dir_url c (world s1) l)"
      and "original_link (req s1) \<noteq> None \<or> is_pinned (req s1)"
      and "\<not> hashes_nonzero (req_hashes c (req s1) False)"
      and "unpack_url c l (source_dir (req s1)) (fst (destination (preparer s1) l))
             (snd (destination (preparer s1) l)) MissingHashes (progress_bar (preparer s1))
             (world s1) = (Inl (HashMissing digest), w)"
  shows "upto_hashes c r s0 = (Inr MissingHashes, s1) \<and>
         prepare_requirement c r s =
           (Inl (HashMissing digest),
            s1\<lparr>world := w,
               trace := trace s1 @
                 [UnpackUrl l (source_dir (req s1)) (fst (destination (preparer s1) l))
                    (snd (destination (preparer s1) l)) MissingHashes
                    (progress_bar (preparer s1))]\<rparr>)"
proof -
  have h: "upto_hashes c r s0 = (Inr MissingHashes, s1)"
    using assms(5-9)
    by (simp add: upto_hashes_from_link [OF assms(4)] hash_feasibility_def compute_hashes_def
        run_defs)
  have "prepare_requirement c r s = from_unpack c r MissingHashes s1"
    using prepare_requirement_fresh [OF assms(1-3)] prepare_fresh_from_hashes [OF h] by simp
  then show ?thesis
    using h unpack_step_raises [OF upto_link_link [OF assms(4)] assms(10), of r]
    by (simp add: from_unpack_def next_do_def seq_def Let_def)
qed

theorem missing_hashes_deferred_witness:
  "prepare_requirement demo_collab strict_resolver (start pinned_req empty_world) =
     (Inl (HashMissing ''sha256:c0ffee''),
      (start pinned_req empty_world)
        \<lparr>req := pinned_req\<lparr>link := Some (index_link ''demo''),
                            source_dir := Some ''/tmp/pip-build/demo''\<rparr>,
         trace := [CheckSkipInstalled, Log Info ''Collecting demo'',
                   EnsureHasSourceDir ''/tmp/pip-build'', PopulateLink False True,
                   UnpackUrl (index_link ''demo'') (Some ''/tmp/pip-build/demo'') None True
                     MissingHashes ''on'']\<rparr>)"
proof -
  let ?s = "start pinned_req empty_world"
  let ?sa = "?s\<lparr>trace := [CheckSkipInstalled, Log Info ''Collecting demo'']\<rparr>"
  let ?sb = "?s\<lparr>req := pinned_req\<lparr>link := Some (index_link ''demo''),
                                   source_dir := Some ''/tmp/pip-build/demo''\<rparr>,
               trace := [CheckSkipInstalled, Log Info ''Collecting demo'',
                         EnsureHasSourceDir ''/tmp/pip-build'', PopulateLink False True]\<rparr>"
  let ?l = "index_link ''demo''"
  have e: "enter demo_collab strict_resolver ?s = (Inr (), ?sa)"
    by (simp add: step_defs run_defs demo_defs)
  have n: "\<not> editable (req ?sa)" "satisfied_by (req ?sa) = None"
    by (simp_all add: demo_defs)
  have l: "upto_link demo_collab strict_resolver ?sa = (Inr ?l, ?sb)"
    by (simp add: step_defs run_defs demo_defs)
  have r: "require_hashes strict_resolver = Some True"
    by (simp add: demo_defs)
  have f: "\<not> is_vcs_url demo_collab ?l"
    "\<not> (is_file_url demo_collab ?l \<and> is_dir_url demo_collab (world ?sb) ?l)"
    "original_link (req ?sb) \<noteq> None \<or> is_pinned (req ?sb)"
    "\<not> hashes_nonzero (req_hashes demo_collab (req ?sb) False)"
    by (simp_all add: demo_defs)
  have u: "unpack_url demo_collab ?l (source_dir (req ?sb)) (fst (destination (preparer ?sb) ?l))
             (snd (destination (preparer ?sb) ?l)) MissingHashes (progress_bar (preparer ?sb))
             (world ?sb) = (Inl (HashMissing ''sha256:c0ffee''), empty_world)"
    by (simp add: demo_defs)
  from missing_hashes_deferred [OF e n l r f u] show ?thesis
    by (simp add: destination_def demo_defs)
qed

text \<open>
  C3. An editable requirement with \<^verbatim>\<open>require_hashes\<close> true fails with the
  \<open>InstallationError\<close> of line 189 (the error the specification calls
  EditableHashConflict). All the run has done by then is to log the line
  \<^verbatim>\<open>Obtaining ...\<close>: the requirement, the preparer and the world are as they were, and
  no collaborator was called, so no source directory was made, no version control was
  run and nothing was fetched.
\<close>

theorem editable_require_hashes:
  assumes "editable (req s)" "require_hashes r = Some True"
  shows "prepare_requirement c r s =
           (Inl (InstallationError
                  (''The editable requirement '' @ req_str c (req s) @
                   '' cannot be installed when requiring hashes, because there is no single file to hash.'')),
            s\<lparr>trace := trace s @ [Log Info (''Obtaining '' @ req_str c (req s))]\<rparr>)"
  using assms
  by (simp add: prepare_requirement_def enter_def announce_def prepare_editable_def logger_def
      assert_that_def when_do_def next_do_def seq_def read_def raise_def succeed_def)

theorem editable_require_hashes_witness:
  "prepare_requirement demo_collab strict_resolver (start editable_req empty_world) =
     (Inl (InstallationError
        ''The editable requirement demo cannot be installed when requiring hashes, because there is no single file to hash.''),
      (start editable_req empty_world)\<lparr>trace := [Log Info ''Obtaining demo'']\<rparr>)"
proof -
  have "editable (req (start editable_req empty_world))" "require_hashes strict_resolver = Some True"
    by (simp_all add: demo_defs)
  from editable_require_hashes [OF this, of demo_collab] show ?thesis
    by (simp add: demo_defs)
qed

section \<open>An installed distribution found after unpacking\<close>

text \<open>
  C4. On the fresh acquisition, when the requirement has \<^verbatim>\<open>satisfied_by\<close> set after
  the second look at what is installed (lines 322 to 324), the outcome depends on
  \<open>should_modify\<close>, which is \<^verbatim>\<open>upgrade_strategy != "to-satisfy-only" or
  ignore_installed\<close>. If it holds, \<^verbatim>\<open>satisfied_by\<close> is cleared in every case, and
  \<^verbatim>\<open>conflicts_with\<close> becomes the distribution found unless the install goes to the
  user site and that distribution is not in the user site. If it does not hold, neither
  field changes and the only effect is the log line \<^verbatim>\<open>Requirement already
  satisfied\<close>. In both cases the abstraction returned is the one the factory built from
  the requirement right after unpacking, which is never the installed variant.
\<close>

theorem conflict_resolution:
  assumes "enter c r s = (Inr (), s0)" "\<not> editable (req s0)" "satisfied_by (req s0) = None"
      and "upto_unpack c r s0 = (Inr (), su)"
      and "finish_fresh c r su = (Inr ad, s1)"
      and "satisfied_by (req s1) = Some d"
  shows "prepare_requirement c r s =
           (Inr ad,
            if should_modify r
            then s1\<lparr>req := (req s1)
                   \<lparr>conflicts_with :=
                      (if use_user_site r \<and> \<not> dist_in_usersite c d
                       then conflicts_with (req s1) else Some d),
                    satisfied_by := None\<rparr>\<rparr>
            else s1\<lparr>trace := trace s1 @
                   [Log Info (''Requirement already satisfied (use --upgrade to upgrade): '' @
                              req_str c (req s1))]\<rparr>)
         \<and> ad = make_abstract_dist (req su) \<and> ad \<noteq> Installed"
proof -
  have k: "upto_recheck c r s0 = (Inr ad, s1)"
    using upto_recheck_from_unpack [OF assms(4)] assms(5) by simp
  have "prepare_requirement c r s = next_do (resolve_conflict c r) (succeed ad) s1"
    using prepare_requirement_fresh [OF assms(1-3)] prepare_fresh_from_recheck [OF k] by simp
  moreover have "ad = make_abstract_dist (req su)"
    using finish_fresh_result [OF assms(5)] .
  ultimately show ?thesis
    using assms(6) make_abstract_dist_not_installed [of "req su"]
    by (simp add: resolve_conflict_def run_defs)
qed

theorem conflict_resolution_witness:
  "prepare_requirement demo_collab eager_resolver (start url_req installed_world) =
     (Inr IsSDist,
      (start url_req installed_world)
        \<lparr>req := url_req\<lparr>req_name := ''demo'', source_dir := Some ''/tmp/pip-build/req-build'',
                         conflicts_with := Some demo_1_0\<rparr>,
         world := installed_world\<lparr>files := [''/tmp/pip-build/req-build'']\<rparr>,
         trace := [CheckSkipInstalled,
                   Log Info ''Collecting https://example.org/demo-2.0.tar.gz'',
                   EnsureHasSourceDir ''/tmp/pip-build'', PopulateLink False False,
                   UnpackUrl archive_link (Some ''/tmp/pip-build/req-build'') None True
                     (Hashes []) ''on'',
                   RunEggInfo, AssertSourceMatchesVersion, CheckIfExists]\<rparr>)
   \<and> prepare_requirement demo_collab lenient_resolver (start url_req installed_world) =
     (Inr IsSDist,
      (start url_req installed_world)
        \<lparr>req := url_req\<lparr>req_name := ''demo'', source_dir := Some ''/tmp/pip-build/req-build'',
                         satisfied_by := Some demo_1_0\<rparr>,
         world := installed_world\<lparr>files := [''/tmp/pip-build/req-build'']\<rparr>,
         trace := [CheckSkipInstalled,
                   Log Info ''Collecting https://example.org/demo-2.0.tar.gz'',
                   EnsureHasSourceDir ''/tmp/pip-build'', PopulateLink False False,
                   UnpackUrl archive_link (Some ''/tmp/pip-build/req-build'') None True
                     (Hashes []) ''on'',
                   RunEggInfo, AssertSourceMatchesVersion, CheckIfExists,
                   Log Info ''Requirement already satisfied (use --upgrade to upgrade): demo'']\<rparr>)"
proof -
  let ?s = "start url_req installed_world"
  let ?sa = "?s\<lparr>trace := [CheckSkipInstalled,
                           Log Info ''Collecting https://example.org/demo-2.0.tar.gz'']\<rparr>"
  let ?su = "?s\<lparr>req := url_req\<lparr>source_dir := Some ''/tmp/pip-build/req-build''\<rparr>,
               world := installed_world\<lparr>files := [''/tmp/pip-build/req-build'']\<rparr>,
               trace := [CheckSkipInstalled,
                         Log Info ''Collecting https://example.org/demo-2.0.tar.gz'',
                         EnsureHasSourceDir ''/tmp/pip-build'', PopulateLink False False,
                         UnpackUrl archive_link (Some ''/tmp/pip-build/req-build'') None True
                           (Hashes []) ''on'']\<rparr>"
  let ?sb = "?s\<lparr>req := url_req\<lparr>req_name := ''demo'',
                                source_dir := Some ''/tmp/pip-build/req-build'',
                                satisfied_by := Some demo_1_0\<rparr>,
               world := installed_world\<lparr>files := [''/tmp/pip-build/req-build'']\<rparr>,
               trace := [CheckSkipInstalled,
                         Log Info ''Collecting https://example.org/demo-2.0.tar.gz'',
                         EnsureHasSourceDir ''/tmp/pip-build'', PopulateLink False False,
                         UnpackUrl archive_link (Some ''/tmp/pip-build/req-build'') None True
                           (Hashes []) ''on'',
                         RunEggInfo, AssertSourceMatchesVersion, CheckIfExists]\<rparr>"
  have n: "\<not> editable (req ?sa)" "satisfied_by (req ?sa) = None"
    by (simp_all add: demo_defs)
  have d: "satisfied_by (req ?sb) = Some demo_1_0"
    by (simp add: demo_defs)
  have eager: "prepare_requirement demo_collab eager_resolver ?s =
                 (Inr IsSDist, ?sb\<lparr>req := (req ?sb)\<lparr>conflicts_with := Some demo_1_0,
                                                   satisfied_by := None\<rparr>\<rparr>)"
  proof -
    have e: "enter demo_collab eager_resolver ?s = (Inr (), ?sa)"
      by (simp add: step_defs run_defs demo_defs)
    have u: "upto_unpack demo_collab eager_resolver ?sa = (Inr (), ?su)"
      by (simp add: step_defs run_defs demo_defs)
    have f: "finish_fresh demo_collab eager_resolver ?su = (Inr IsSDist, ?sb)"
      by (simp add: step_defs run_defs demo_defs)
    from conflict_resolution [OF e n u f d] show ?thesis
      by (simp add: should_modify_def demo_defs)
  qed
  have lenient: "prepare_requirement demo_collab lenient_resolver ?s =
                   (Inr IsSDist,
                    ?sb\<lparr>trace := trace ?sb @
                      [Log Info ''Requirement already satisfied (use --upgrade to upgrade): demo'']\<rparr>)"
  proof -
    have e: "enter demo_collab lenient_resolver ?s = (Inr (), ?sa)"
      by (simp add: step_defs run_defs demo_defs)
    have u: "upto_unpack demo_collab lenient_resolver ?sa = (Inr (), ?su)"
      by (simp add: step_defs run_defs demo_defs)
    have f: "finish_fresh demo_collab lenient_resolver ?su = (Inr IsSDist, ?sb)"
      by (simp add: step_defs run_defs demo_defs)
    from conflict_resolution [OF e n u f d] show ?thesis
      by (simp add: should_modify_def demo_defs)
  qed
  from eager lenient show ?thesis
    by (simp add: demo_defs)
qed

text \<open>
  C5. With the install going to the user site and the distribution found after
  unpacking not in the user site, \<^verbatim>\<open>conflicts_with\<close> after the run is what it was
  before the conflict was looked at, also when \<open>should_modify\<close> holds: then the one
  change is that \<^verbatim>\<open>satisfied_by\<close> is cleared.
\<close>

theorem user_site_scope_guard:
  assumes "enter c r s = (Inr (), s0)" "\<not> editable (req s0)" "satisfied_by (req s0) = None"
      and "upto_recheck c r s0 = (Inr ad, s1)"
      and "satisfied_by (req s1) = Some d"
      and "use_user_site r" "\<not> dist_in_usersite c d"
  shows "prepare_requirement c r s =
           (Inr ad,
            if should_modify r then s1\<lparr>req := (req s1)\<lparr>satisfied_by := None\<rparr>\<rparr>
            else s1\<lparr>trace := trace s1 @
                   [Log Info (''Requirement already satisfied (use --upgrade to upgrade): '' @
                              req_str c (req s1))]\<rparr>)
         \<and> conflicts_with (req (snd (prepare_requirement c r s))) = conflicts_with (req s1)"
proof -
  have "prepare_requirement c r s = next_do (resolve_conflict c r) (succeed ad) s1"
    using prepare_requirement_fresh [OF assms(1-3)] prepare_fresh_from_recheck [OF assms(4)]
    by simp
  then show ?thesis
    using assms(5-7) by (simp add: resolve_conflict_def run_defs)
qed

theorem user_site_scope_guard_witness:
  "prepare_requirement demo_collab user_site_resolver (start url_req installed_world) =
     (Inr IsSDist,
      (start url_req installed_world)
        \<lparr>req := url_req\<lparr>req_name := ''demo'', source_dir := Some ''/tmp/pip-build/req-build''\<rparr>,
         world := installed_world\<lparr>files := [''/tmp/pip-build/req-build'']\<rparr>,
         trace := [CheckSkipInstalled,
                   Log Info ''Collecting https://example.org/demo-2.0.tar.gz'',
                   EnsureHasSourceDir ''/tmp/pip-build'', PopulateLink False False,
                   UnpackUrl archive_link (Some ''/tmp/pip-build/req-build'') None True
                     (Hashes []) ''on'',
                   RunEggInfo, AssertSourceMatchesVersion, CheckIfExists]\<rparr>)
   \<and> conflicts_with
       (req (snd (prepare_requirement demo_collab user_site_resolver
                    (start url_req installed_world)))) = None"
proof -
  let ?s = "start url_req installed_world"
  let ?sa = "?s\<lparr>trace := [CheckSkipInstalled,
                           Log Info ''Collecting https://example.org/demo-2.0.tar.gz'']\<rparr>"
  let ?sb = "?s\<lparr>req := url_req\<lparr>req_name := ''demo'',
                                source_dir := Some ''/tmp/pip-build/req-build'',
                                satisfied_by := Some demo_1_0\<rparr>,
               world := installed_world\<lparr>files := [''/tmp/pip-build/req-build'']\<rparr>,
               trace := [CheckSkipInstalled,
                         Log Info ''Collecting https://example.org/demo-2.0.tar.gz'',
                         EnsureHasSourceDir ''/tmp/pip-build'', PopulateLink False False,
                         UnpackUrl archive_link (Some ''/tmp/pip-build/req-build'') None True
                           (Hashes []) ''on'',
                         RunEggInfo, AssertSourceMatchesVersion, CheckIfExists]\<rparr>"
  have e: "enter demo_collab user_site_resolver ?s = (Inr (), ?sa)"
    by (simp add: step_defs run_defs demo_defs)
  have n: "\<not> editable (req ?sa)" "satisfied_by (req ?sa) = None"
    by (simp_all add: demo_defs)
  have k: "upto_recheck demo_collab user_site_resolver ?sa = (Inr IsSDist, ?sb)"
    by (simp add: step_defs run_defs demo_defs)
  have d: "satisfied_by (req ?sb) = Some demo_1_0" "use_user_site user_site_resolver"
    "\<not> dist_in_usersite demo_collab demo_1_0"
    by (simp_all add: demo_defs)
  from user_site_scope_guard [OF e n k d] show ?thesis
    by (simp add: should_modify_def demo_defs)
qed

section \<open>Unpacking\<close>

text \<open>
  C6, as the code has it. The handler of lines 301 to 312 catches
  \<^verbatim>\<open>requests.HTTPError\<close> only. When \<^verbatim>\<open>unpack_url\<close> raises it, the run logs a
  critical line and raises an \<open>InstallationError\<close> whose message contains the text of
  the requirement, the text of the HTTP error and the text of the link. Any other
  exception of \<^verbatim>\<open>unpack_url\<close>, a connection error among them, leaves
  \<^verbatim>\<open>prepare_requirement\<close> as it was raised.
\<close>

theorem http_error_wrapped:
  assumes "enter c r s = (Inr (), s0)" "\<not> editable (req s0)" "satisfied_by (req s0) = None"
      and "upto_hashes c r s0 = (Inr hs, s1)"
      and "link (req s1) = Some l"
      and "unpack_url c l (source_dir (req s1)) (fst (destination (preparer s1) l))
             (snd (destination (preparer s1) l)) hs (progress_bar (preparer s1)) (world s1) =
           (Inl e, w)"
  shows "(let s2 = s1\<lparr>world := w,
                      trace := trace s1 @
                        [UnpackUrl l (source_dir (req s1)) (fst (destination (preparer s1) l))
                           (snd (destination (preparer s1) l)) hs (progress_bar (preparer s1))]\<rparr>;
              msg = (\<lambda>exc. ''Could not install requirement '' @ req_str c (req s1) @
                           '' because of HTTP error '' @ exc @ '' for URL '' @ link_str c l)
          in (\<forall>exc. e = HTTPError exc \<longrightarrow>
                prepare_requirement c r s =
                  (Inl (InstallationError (msg exc)),
                   s2\<lparr>trace := trace s2 @
                        [Log Critical (''Could not install requirement '' @ req_str c (req s1) @
                                       '' because of error '' @ exc)]\<rparr>)
                \<and> sublist (req_str c (req s1)) (msg exc)
                \<and> sublist exc (msg exc)
                \<and> sublist (link_str c l) (msg exc))
           \<and> ((\<forall>exc. e \<noteq> HTTPError exc) \<longrightarrow> prepare_requirement c r s = (Inl e, s2)))"
proof -
  have p: "prepare_requirement c r s = from_unpack c r hs s1"
    using prepare_requirement_fresh [OF assms(1-3)] prepare_fresh_from_hashes [OF assms(4)]
    by simp
  have m: "sublist a (x @ a @ y)" for a x y :: string
    by simp
  have n: "sublist a (x @ u @ y @ a @ z)" for a x u y z :: string
    using m [of a "x @ u @ y" z] by simp
  have o: "sublist a (x @ u @ y @ v @ z @ a)" for a x u y v z :: string
    using m [of a "x @ u @ y @ v @ z" "[]"] by simp
  show ?thesis
    unfolding Let_def p
    using unpack_step_raises [OF assms(5,6), of r]
    by (cases e) (simp_all add: from_unpack_def next_do_def seq_def Let_def m n o del: append.simps)
qed

theorem http_error_wrapped_witness:
  "prepare_requirement not_found_collab eager_resolver (start url_req empty_world) =
     (Inl (InstallationError
        ''Could not install requirement https://example.org/demo-2.0.tar.gz because of HTTP error 404 Client Error: Not Found for URL https://example.org/demo-2.0.tar.gz''),
      (start url_req empty_world)
        \<lparr>req := url_req\<lparr>source_dir := Some ''/tmp/pip-build/req-build''\<rparr>,
         trace := [CheckSkipInstalled,
                   Log Info ''Collecting https://example.org/demo-2.0.tar.gz'',
                   EnsureHasSourceDir ''/tmp/pip-build'', PopulateLink False False,
                   UnpackUrl archive_link (Some ''/tmp/pip-build/req-build'') None True
                     (Hashes []) ''on'',
                   Log Critical
                     ''Could not install requirement https://example.org/demo-2.0.tar.gz because of error 404 Client Error: Not Found'']\<rparr>)
   \<and> prepare_requirement offline_collab eager_resolver (start url_req empty_world) =
     (Inl (ConnectionError ''Connection refused''),
      (start url_req empty_world)
        \<lparr>req := url_req\<lparr>source_dir := Some ''/tmp/pip-build/req-build''\<rparr>,
         trace := [CheckSkipInstalled,
                   Log Info ''Collecting https://example.org/demo-2.0.tar.gz'',
                   EnsureHasSourceDir ''/tmp/pip-build'', PopulateLink False False,
                   UnpackUrl archive_link (Some ''/tmp/pip-build/req-build'') None True
                     (Hashes []) ''on'']\<rparr>)"
proof -
  let ?s = "start url_req empty_world"
  let ?sa = "?s\<lparr>trace := [CheckSkipInstalled,
                           Log Info ''Collecting https://example.org/demo-2.0.tar.gz'']\<rparr>"
  let ?sb = "?s\<lparr>req := url_req\<lparr>source_dir := Some ''/tmp/pip-build/req-build''\<rparr>,
               trace := [CheckSkipInstalled,
                         Log Info ''Collecting https://example.org/demo-2.0.tar.gz'',
                         EnsureHasSourceDir ''/tmp/pip-build'', PopulateLink False False]\<rparr>"
  have n: "\<not> editable (req ?sa)" "satisfied_by (req ?sa) = None"
    by (simp_all add: demo_defs)
  have l: "link (req ?sb) = Some archive_link"
    by (simp add: demo_defs)
  have http: "prepare_requirement not_found_collab eager_resolver ?s =
     (Inl (InstallationError
        ''Could not install requirement https://example.org/demo-2.0.tar.gz because of HTTP error 404 Client Error: Not Found for URL https://example.org/demo-2.0.tar.gz''),
      ?sb\<lparr>trace := trace ?sb @
           [UnpackUrl archive_link (Some ''/tmp/pip-build/req-build'') None True (Hashes []) ''on'',
            Log Critical
              ''Could not install requirement https://example.org/demo-2.0.tar.gz because of error 404 Client Error: Not Found'']\<rparr>)"
  proof -
    have e: "enter not_found_collab eager_resolver ?s = (Inr (), ?sa)"
      by (simp add: step_defs run_defs demo_defs)
    have h: "upto_hashes not_found_collab eager_resolver ?sa = (Inr (Hashes []), ?sb)"
      by (simp add: step_defs run_defs demo_defs)
    have u: "unpack_url not_found_collab archive_link (source_dir (req ?sb))
               (fst (destination (preparer ?sb) archive_link))
               (snd (destination (preparer ?sb) archive_link)) (Hashes [])
               (progress_bar (preparer ?sb)) (world ?sb) =
             (Inl (HTTPError ''404 Client Error: Not Found''), empty_world)"
      by (simp add: demo_defs)
    from http_error_wrapped [OF e n h l u] show ?thesis
      by (simp add: Let_def destination_def demo_defs)
  qed
  have other: "prepare_requirement offline_collab eager_resolver ?s =
     (Inl (ConnectionError ''Connection refused''),
      ?sb\<lparr>trace := trace ?sb @
           [UnpackUrl archive_link (Some ''/tmp/pip-build/req-build'') None True (Hashes []) ''on'']\<rparr>)"
  proof -
    have e: "enter offline_collab eager_resolver ?s = (Inr (), ?sa)"
      by (simp add: step_defs run_defs demo_defs)
    have h: "upto_hashes offline_collab eager_resolver ?sa = (Inr (Hashes []), ?sb)"
      by (simp add: step_defs run_defs demo_defs)
    have u: "unpack_url offline_collab archive_link (source_dir (req ?sb))
               (fst (destination (preparer ?sb) archive_link))
               (snd (destination (preparer ?sb) archive_link)) (Hashes [])
               (progress_bar (preparer ?sb)) (world ?sb) =
             (Inl (ConnectionError ''Connection refused''), empty_world)"
      by (simp add: demo_defs)
    from http_error_wrapped [OF e n h l u] show ?thesis
      by (simp add: Let_def destination_def demo_defs)
  qed
  from http other show ?thesis
    by (simp add: demo_defs)
qed

text \<open>C6 as stated fails: a connection error of \<^verbatim>\<open>unpack_url\<close> is raised by
  \<^verbatim>\<open>prepare_requirement\<close> unchanged, not as an \<open>InstallationError\<close>.\<close>

theorem connection_error_not_wrapped:
  "fst (prepare_requirement offline_collab eager_resolver (start url_req empty_world)) =
     Inl (ConnectionError ''Connection refused'')"
  by (simp add: prepare_requirement_def prepare_fresh_def prepare_editable_def
      prepare_installed_def step_defs run_defs demo_defs)

text \<open>
  C7, as the code has it. A wheel with a wheel download directory configured goes to
  that directory; every other link goes to the general download directory. The unpacked
  tree of a link that is not a wheel is always deleted afterwards, whatever the download
  directory. The unpacked tree of a wheel is deleted afterwards when the directory chosen
  is set, and kept when none is.
\<close>

theorem destination_policy:
  "(is_wheel l \<and> truthy (wheel_download_dir p) \<longrightarrow>
      fst (destination p l) = wheel_download_dir p)
   \<and> (\<not> (is_wheel l \<and> truthy (wheel_download_dir p)) \<longrightarrow>
      fst (destination p l) = download_dir p)
   \<and> (\<not> is_wheel l \<longrightarrow> snd (destination p l))
   \<and> (is_wheel l \<and> truthy (fst (destination p l)) \<longrightarrow> snd (destination p l))
   \<and> (is_wheel l \<and> \<not> truthy (fst (destination p l)) \<longrightarrow> \<not> snd (destination p l))"
  by (simp add: destination_def Let_def)

theorem destination_policy_witness:
  "destination (keep_preparer\<lparr>wheel_download_dir := Some ''/wheelhouse''\<rparr>) wheel_link =
     (Some ''/wheelhouse'', True)
   \<and> destination demo_preparer wheel_link = (None, False)
   \<and> destination demo_preparer archive_link = (None, True)"
proof -
  let ?p = "keep_preparer\<lparr>wheel_download_dir := Some ''/wheelhouse''\<rparr>"
  have a: "is_wheel wheel_link" "truthy (wheel_download_dir ?p)"
    "\<not> truthy (wheel_download_dir demo_preparer)" "\<not> truthy (download_dir demo_preparer)"
    "\<not> is_wheel archive_link"
    by (simp_all add: demo_defs)
  from a destination_policy [of wheel_link ?p] destination_policy [of wheel_link demo_preparer]
    destination_policy [of archive_link demo_preparer]
  show ?thesis
    by (simp add: prod_eq_iff demo_defs)
qed

text \<open>C7 as stated fails: with the general download directory configured, the
  unpacked tree of a source archive is still marked for deletion.\<close>

theorem sdist_autodelete_with_download_dir:
  "destination keep_preparer archive_link = (Some ''/downloads'', True)"
  by (simp add: destination_def Let_def demo_defs)

section \<open>The guard against a previous build\<close>

text \<open>
  C8. For a requirement that is neither editable nor satisfied, when
  \<^verbatim>\<open>ensure_has_source_dir\<close> has returned and \<^verbatim>\<open>setup.py\<close> exists in the source
  directory, the run fails with \<open>PreviousBuildDirError\<close>. The state is then the one
  \<^verbatim>\<open>ensure_has_source_dir\<close> left: \<^verbatim>\<open>populate_link\<close> and \<^verbatim>\<open>unpack_url\<close> were
  not called, the world was not touched again, and \<^verbatim>\<open>setup.py\<close> is still there.
\<close>

theorem previous_build_dir:
  assumes "enter c r s = (Inr (), s0)" "\<not> editable (req s0)" "satisfied_by (req s0) = None"
      and "ensure_has_source_dir c (build_dir (preparer s0)) (req s0) (world s0) =
             (Inr (), rq, w)"
      and "source_dir rq = Some d"
      and "path_exists c w (path_join d ''setup.py'')"
  shows "prepare_requirement c r s =
           (Inl (PreviousBuildDirError
                  (''pip can'' @ [CHR 0x27] @ ''t proceed with requirements '' @
                   quote (req_str c rq) @
                   '' due to a pre-existing build directory ('' @ d @
                   ''). This is likely due to a previous installation that failed'' @
                   ''. pip is being responsible and not assuming it '' @
                   ''can delete this. Please delete it and try again.'')),
            s0\<lparr>req := rq, world := w,
               trace := trace s0 @ [EnsureHasSourceDir (build_dir (preparer s0))]\<rparr>)
         \<and> path_exists c (world (snd (prepare_requirement c r s))) (path_join d ''setup.py'')"
proof -
  have "prepare_requirement c r s = prepare_fresh c r s0"
    using prepare_requirement_fresh [OF assms(1-3)] .
  then show ?thesis
    using assms(4-6)
    by (simp add: prepare_fresh_def upto_recheck_def upto_unpack_def upto_hashes_def
        upto_link_def ensure_build_dir_def run_defs)
qed

theorem previous_build_dir_witness:
  "fst (prepare_requirement demo_collab strict_resolver (start pinned_req stale_world)) =
     Inl (PreviousBuildDirError
       (''pip can'' @ [CHR 0x27] @ ''t proceed with requirements '' @ [CHR 0x27] @ ''demo'' @
        [CHR 0x27] @ '' due to a pre-existing build directory (/tmp/pip-build/demo). This is likely due to a previous installation that failed. pip is being responsible and not assuming it can delete this. Please delete it and try again.''))
   \<and> snd (prepare_requirement demo_collab strict_resolver (start pinned_req stale_world)) =
       (start pinned_req stale_world)
         \<lparr>req := pinned_req\<lparr>source_dir := Some ''/tmp/pip-build/demo''\<rparr>,
          trace := [CheckSkipInstalled, Log Info ''Collecting demo'',
                    EnsureHasSourceDir ''/tmp/pip-build'']\<rparr>"
proof -
  let ?s = "start pinned_req stale_world"
  let ?sa = "?s\<lparr>trace := [CheckSkipInstalled, Log Info ''Collecting demo'']\<rparr>"
  let ?rq = "pinned_req\<lparr>source_dir := Some ''/tmp/pip-build/demo''\<rparr>"
  have e: "enter demo_collab strict_resolver ?s = (Inr (), ?sa)"
    by (simp add: step_defs run_defs demo_defs)
  have n: "\<not> editable (req ?sa)" "satisfied_by (req ?sa) = None"
    by (simp_all add: demo_defs)
  have b: "ensure_has_source_dir demo_collab (build_dir (preparer ?sa)) (req ?sa) (world ?sa) =
             (Inr (), ?rq, stale_world)"
    by (simp add: demo_defs)
  have d: "source_dir ?rq = Some ''/tmp/pip-build/demo''"
    by simp
  have x: "path_exists demo_collab stale_world (path_join ''/tmp/pip-build/demo'' ''setup.py'')"
    by (simp add: demo_defs)
  from previous_build_dir [OF e n b d x] show ?thesis
    by (simp add: demo_defs)
qed

section \<open>The wheel abstraction\<close>

text \<open>
  C9, as the code has it. \<^verbatim>\<open>IsWheel.dist\<close> asks \<^verbatim>\<open>find_distributions\<close> for the
  distributions in the source directory and returns the first of them, without looking
  at how many there are; when there is none it raises \<open>IndexError\<close>.
  \<^verbatim>\<open>IsWheel.prep_for_dist\<close> does nothing.
\<close>

theorem wheel_dist_first_found:
  assumes "find_distributions c (source_dir (req s)) (world s) = (Inr ds, w)"
  shows "dist c IsWheel s =
           (case ds of [] \<Rightarrow> Inl IndexError | d # rest \<Rightarrow> Inr (Some d),
            s\<lparr>world := w, trace := trace s @ [FindDistributions (source_dir (req s))]\<rparr>)
         \<and> prep_for_dist c IsWheel s = (Inr (), s)"
  using assms by (cases ds) (simp_all add: run_defs)

theorem wheel_dist_first_found_witness:
  "dist demo_collab IsWheel (start wheel_req unpacked_world) =
     (Inr (Some demo_2_0),
      (start wheel_req unpacked_world)\<lparr>trace := [FindDistributions (Some ''/tmp/pip-build/demo'')]\<rparr>)
   \<and> prep_for_dist demo_collab IsWheel (start wheel_req unpacked_world) =
       (Inr (), start wheel_req unpacked_world)"
proof -
  let ?s = "start wheel_req unpacked_world"
  have "find_distributions demo_collab (source_dir (req ?s)) (world ?s) =
          (Inr [demo_2_0], unpacked_world)"
    by (simp add: demo_defs)
  from wheel_dist_first_found [OF this] show ?thesis
    by (simp add: demo_defs)
qed

text \<open>C9 as stated fails: in a directory where \<^verbatim>\<open>find_distributions\<close> finds
  nothing, \<^verbatim>\<open>dist\<close> returns no distribution, it raises \<open>IndexError\<close>.\<close>

theorem wheel_dist_none_found:
  "fst (dist demo_collab IsWheel (start wheel_req empty_world)) = Inl IndexError"
  by (simp add: run_defs demo_defs)

section \<open>The hashes that count\<close>

text \<open>
  C10. On the fresh acquisition the hash set handed to the unpack step is what
  \<^verbatim>\<open>req.hashes\<close> returns for \<^verbatim>\<open>trust_internet = not require_hashes\<close>, replaced by
  the facade when verification is mandatory and that set is empty. So with verification
  mandatory the call is \<^verbatim>\<open>req.hashes(trust_internet=False)\<close>; for a \<^verbatim>\<open>req.hashes\<close>
  that returns only the declared hashes of the requirement in that case, the set handed
  on is the declared hashes or the facade, whatever hash the link carries.
\<close>

theorem trust_internet_negates_require_hashes:
  assumes "enter c r s = (Inr (), s0)" "\<not> editable (req s0)" "satisfied_by (req s0) = None"
      and "require_hashes r = Some b"
      and "upto_hashes c r s0 = (Inr hs, s1)"
  shows "hs = (if b \<and> \<not> hashes_nonzero (req_hashes c (req s1) (\<not> b)) then MissingHashes
               else req_hashes c (req s1) (\<not> b))
         \<and> prepare_requirement c r s = from_unpack c r hs s1
         \<and> (b \<longrightarrow> (\<forall>rq. req_hashes c rq False = Hashes (declared_hashes rq)) \<longrightarrow>
              hs = (if declared_hashes (req s1) = [] then MissingHashes
                    else Hashes (declared_hashes (req s1))))"
proof -
  have "prepare_requirement c r s = from_unpack c r hs s1"
    using prepare_requirement_fresh [OF assms(1-3)] prepare_fresh_from_hashes [OF assms(5)]
    by simp
  then show ?thesis
    using upto_hashes_result [OF assms(5)] assms(4) by (auto simp: Let_def)
qed

theorem trust_internet_negates_require_hashes_witness:
  "upto_hashes demo_collab strict_resolver
     ((start hashed_req empty_world)\<lparr>trace := [CheckSkipInstalled, Log Info ''Collecting demo'']\<rparr>) =
     (Inr (Hashes [(''sha256'', [''abc123''])]),
      (start hashed_req empty_world)
        \<lparr>req := hashed_req\<lparr>link := Some (index_link ''demo''),
                            source_dir := Some ''/tmp/pip-build/demo''\<rparr>,
         trace := [CheckSkipInstalled, Log Info ''Collecting demo'',
                   EnsureHasSourceDir ''/tmp/pip-build'', PopulateLink False True]\<rparr>)
   \<and> link_hash (index_link ''demo'') = Some (''sha256'', ''c0ffee'')
   \<and> prepare_requirement demo_collab strict_resolver (start hashed_req empty_world) =
       from_unpack demo_collab strict_resolver (Hashes [(''sha256'', [''abc123''])])
         ((start hashed_req empty_world)
            \<lparr>req := hashed_req\<lparr>link := Some (index_link ''demo''),
                                source_dir := Some ''/tmp/pip-build/demo''\<rparr>,
             trace := [CheckSkipInstalled, Log Info ''Collecting demo'',
                       EnsureHasSourceDir ''/tmp/pip-build'', PopulateLink False True]\<rparr>)"
proof -
  let ?s = "start hashed_req empty_world"
  let ?sa = "?s\<lparr>trace := [CheckSkipInstalled, Log Info ''Collecting demo'']\<rparr>"
  let ?sb = "?s\<lparr>req := hashed_req\<lparr>link := Some (index_link ''demo''),
                                   source_dir := Some ''/tmp/pip-build/demo''\<rparr>,
               trace := [CheckSkipInstalled, Log Info ''Collecting demo'',
                         EnsureHasSourceDir ''/tmp/pip-build'', PopulateLink False True]\<rparr>"
  have e: "enter demo_collab strict_resolver ?s = (Inr (), ?sa)"
    by (simp add: step_defs run_defs demo_defs)
  have n: "\<not> editable (req ?sa)" "satisfied_by (req ?sa) = None"
    by (simp_all add: demo_defs)
  have r: "require_hashes strict_resolver = Some True"
    by (simp add: demo_defs)
  have h: "upto_hashes demo_collab strict_resolver ?sa =
             (Inr (Hashes [(''sha256'', [''abc123''])]), ?sb)"
    by (simp add: step_defs run_defs demo_defs)
  have q: "\<forall>rq. req_hashes demo_collab rq False = Hashes (declared_hashes rq)"
    by (simp add: demo_defs)
  from trust_internet_negates_require_hashes [OF e n r h] q h show ?thesis
    by (simp add: index_link_def)
qed

end
